theory Spec2Isabelle
  imports Main
begin

section \<open>Data model\<close>

text \<open>
  A JavaScript string is a \<open>string\<close>; an array is a list; a property that may be
  \<^verbatim>\<open>null\<close> or \<^verbatim>\<open>undefined\<close> is an \<open>option\<close>, with \<open>None\<close> for both. The
  declarations of \<^verbatim>\<open>types/model\<close> are not among the sources: the records below have the
  properties the two source files read, and what the spec says of the data model.
\<close>

text \<open>
  Modelled from the spec: the type \<^verbatim>\<open>IssueType\<close> of \<^verbatim>\<open>types/model\<close> is missing. An issue
  type of the tracker, as it appears in a conflict record; the modal reads its name.
\<close>

record IssueType =
  id' :: string
  name :: string

text \<open>
  Modelled from the spec: the type \<^verbatim>\<open>FilterField\<close> of \<^verbatim>\<open>types/model\<close> is missing. A
  custom-field filter of the project schema: the modal reads its \<^verbatim>\<open>key\<close> and its
  \<^verbatim>\<open>name\<close>; the issue types are those the field applies to.
\<close>

record FilterField =
  field_key :: string
  field_name :: string
  field_issueTypes :: "IssueType list"

text \<open>
  Modelled from the spec: the type \<^verbatim>\<open>FilterValue\<close> of \<^verbatim>\<open>types/model\<close> is missing. A
  selected custom-field filter: a key with its operator and value payload. The modal reads
  the key only.
\<close>

record FilterValue =
  key :: string
  inclusion :: string
  values' :: "string list"

text \<open>
  Modelled from the spec: the result type of \<^verbatim>\<open>getConflictingFields\<close> is missing. One
  conflict record: a field, paired with the issue types that do not support it; the modal
  reads \<^verbatim>\<open>cf.field\<close> and \<^verbatim>\<open>cf.issueTypes[0]\<close>.
\<close>

record ConflictingField =
  field :: FilterField
  issueTypes :: "IssueType list"

text \<open>
  Modelled from the spec: the type \<^verbatim>\<open>ChannelSubscriptionFilters\<close> of \<^verbatim>\<open>types/model\<close> is
  missing. Its four properties are those of the constructor's initial filters.
\<close>

record ChannelSubscriptionFilters =
  events :: "string list"
  projects :: "string list"
  issue_types :: "string list"
  fields' :: "FilterValue list"

text \<open>
  The filters of a subscription as the server stored them: the stored subscription may
  have no \<^verbatim>\<open>fields\<close>, which is why the constructor writes \<^verbatim>\<open>filters.fields || []\<close>.
\<close>

record StoredFilters =
  stored_events :: "string list"
  stored_projects :: "string list"
  stored_issue_types :: "string list"
  stored_fields :: "FilterValue list option"

text \<open>\<^verbatim>\<open>props.selectedSubscription\<close>, the subscription being edited.\<close>

record SelectedSubscription =
  selected_id :: string
  selected_name :: string
  selected_filters :: StoredFilters

text \<open>The subscription object \<^verbatim>\<open>handleCreate\<close> builds and sends.\<close>

record ChannelSubscription =
  subscription_id :: "string option"
  channel_id :: string
  subscription_filters :: ChannelSubscriptionFilters
  subscription_name :: "string option"

text \<open>The component state, field by field as the type \<^verbatim>\<open>State\<close> declares it.\<close>

record State =
  filters :: ChannelSubscriptionFilters
  fetchingIssueMetadata :: bool
  error :: "string option"
  getMetaDataErr :: "string option"
  submitting :: bool
  subscriptionName :: "string option"
  showConfirmModal :: bool
  conflictingError :: "string option"

text \<open>
  The properties the handlers read. The metadata of the selected project is kept
  abstract (type \<open>'m\<close>): the component only hands it to the two functions below.
\<close>

record 'm Props =
  jiraIssueMetadata :: 'm
  selectedSubscription :: "SelectedSubscription option"
  channel :: string

text \<open>
  The two functions of \<^verbatim>\<open>utils/jira_issue_metadata\<close> that the handlers call are
  parameters of the model: every theorem below holds for any implementation of them.
\<close>

record 'm Utils =
  getCustomFieldFiltersForProjects :: "'m \<Rightarrow> string list \<Rightarrow> FilterField list"
  getConflictingFields :: "FilterField list \<Rightarrow> string list \<Rightarrow> 'm \<Rightarrow> ConflictingField list"

text \<open>What a handler asks of its collaborators, in the order it asks.\<close>

datatype effect =
  FinishEditSubscription
| ClearIssueMetadata
| FetchJiraIssueMetadataForProjects "string list"
| DeleteChannelSubscription SelectedSubscription
| EditChannelSubscription ChannelSubscription
| CreateChannelSubscription ChannelSubscription

text \<open>Reading a property of \<^verbatim>\<open>undefined\<close> throws.\<close>

datatype js_exception = TypeError

section \<open>Strings and arrays of the JavaScript library\<close>

text \<open>\<^verbatim>\<open>Array.prototype.join\<close> on an array of strings.\<close>

fun join :: "string \<Rightarrow> string list \<Rightarrow> string" where
  "join sep [] = []"
| "join sep [x] = x"
| "join sep (x # y # ys) = x @ sep @ join sep (y # ys)"

text \<open>\<^verbatim>\<open>String.prototype.startsWith\<close>.\<close>

definition startsWith :: "string \<Rightarrow> string \<Rightarrow> bool" where
  "startsWith s p = (take (length p) s = p)"

text \<open>\<^verbatim>\<open>Array.prototype.indexOf\<close>: the first index holding the element, or -1.\<close>

fun indexOf :: "'a list \<Rightarrow> 'a \<Rightarrow> int" where
  "indexOf [] v = -1"
| "indexOf (x # xs) v =
     (if x = v then 0 else (let i = indexOf xs v in if i < 0 then -1 else i + 1))"

text \<open>
  What \<^verbatim>\<open>xs.splice(start, 1)\<close> leaves in \<open>xs\<close>: a negative \<open>start\<close> counts from the
  end, and a start beyond the end removes nothing.
\<close>

definition splice1 :: "int \<Rightarrow> 'a list \<Rightarrow> 'a list" where
  "splice1 start xs =
     (let n = int (length xs);
          actualStart = (if start < 0 then max (n + start) 0 else min start n)
      in take (nat actualStart) xs @ drop (nat actualStart + 1) xs)"

section \<open>The subscription modal: \<^verbatim>\<open>edit_channel_settings.tsx\<close>\<close>

text \<open>\<^verbatim>\<open>array.find(pred)\<close> used as a condition: an element was found.\<close>

definition hasFilterField :: "FilterField list \<Rightarrow> FilterValue \<Rightarrow> bool" where
  "hasFilterField filterFields v = (find (\<lambda>f. field_key f = key v) filterFields \<noteq> None)"

definition isSelected :: "FilterValue list \<Rightarrow> ConflictingField \<Rightarrow> bool" where
  "isSelected selected f1 = (find (\<lambda>f2. field_key (field f1) = key f2) selected \<noteq> None)"

text \<open>The conflict message of \<^verbatim>\<open>handleIssueChange\<close>.\<close>

definition conflictingErrorStr :: "string \<Rightarrow> string \<Rightarrow> string" where
  "conflictingErrorStr issueTypeName fieldsStr =
     ''Issue Type(s) '' @ [CHR 0x22] @ issueTypeName @ [CHR 0x22]
     @ '' does not have filter field(s): '' @ [CHR 0x22] @ fieldsStr @ [CHR 0x22] @ ''.  ''
     @ ''Please update the conflicting fields or create a separate subscription.''"

text \<open>\<^verbatim>\<open>value || []\<close> on a value of type \<^verbatim>\<open>string[] | null\<close>.\<close>

definition orEmpty :: "'a list option \<Rightarrow> 'a list" where
  "orEmpty v = (case v of None \<Rightarrow> [] | Some xs \<Rightarrow> xs)"

text \<open>
  \<^verbatim>\<open>handleIssueChange(id, value)\<close>. The conflicts are computed only when the new
  selection is longer than the stored one; they are computed for all the filter fields
  of the schema and then narrowed to the selected ones.
  \<^verbatim>\<open>conflictingFields[0].issueTypes[0].name\<close> throws when the first conflict record
  has no issue type.
\<close>

definition handleIssueChange ::
  "'m Utils \<Rightarrow> 'm Props \<Rightarrow> State \<Rightarrow> string list option \<Rightarrow> js_exception + State" where
  "handleIssueChange U P st v =
     (let finalValue = orEmpty v;
          filters' = (filters st)\<lparr>issue_types := finalValue\<rparr>;
          conflictingFields =
            (if length finalValue > length (issue_types (filters st))
             then Some (getConflictingFields U
                          (getCustomFieldFiltersForProjects U (jiraIssueMetadata P)
                             (projects (filters st)))
                          finalValue (jiraIssueMetadata P))
             else None)
      in case conflictingFields of
           Some (c # cs) \<Rightarrow>
             (let selectedConflictingFields = filter (isSelected (fields' (filters st))) (c # cs)
              in if selectedConflictingFields \<noteq> [] then
                   (let fieldsStr = join '', '' (map (\<lambda>cf. field_name (field cf)) selectedConflictingFields)
                    in case issueTypes c of
                         [] \<Rightarrow> Inl TypeError
                       | conflictingIssueType # _ \<Rightarrow>
                           Inr (st\<lparr>conflictingError :=
                                  Some (conflictingErrorStr (name conflictingIssueType) fieldsStr)\<rparr>))
                 else Inr (st\<lparr>filters := filters', conflictingError := None\<rparr>))
         | _ \<Rightarrow> Inr (st\<lparr>filters := filters', conflictingError := None\<rparr>))"

text \<open>
  The value a select control hands to \<^verbatim>\<open>onChange\<close>: nothing, one option value (a
  single-valued select), or an array of option values. Option values are strings.
\<close>

datatype select_value = Undefined | Null | Single string | Multi "string list"

text \<open>JavaScript truthiness: \<^verbatim>\<open>!value\<close> holds of \<^verbatim>\<open>undefined\<close>, \<^verbatim>\<open>null\<close> and the empty string.\<close>

fun truthy :: "select_value \<Rightarrow> bool" where
  "truthy Undefined = False"
| "truthy Null = False"
| "truthy (Single s) = (s \<noteq> [])"
| "truthy (Multi xs) = True"

text \<open>
  The chain \<^verbatim>\<open>if (!value) { value = [] } else if (!Array.isArray(value)) { value = [value] }\<close>
  that \<^verbatim>\<open>handleSettingChange\<close> and \<^verbatim>\<open>handleProjectChange\<close> both run on their input.
\<close>

definition toArray :: "select_value \<Rightarrow> string list" where
  "toArray v =
     (if \<not> truthy v then []
      else case v of Multi xs \<Rightarrow> xs | Single s \<Rightarrow> [s] | _ \<Rightarrow> [])"

text \<open>
  The keys of the filters that hold arrays of strings (\<^verbatim>\<open>fields\<close> holds filter
  records and is written by \<^verbatim>\<open>handleFilterFieldChange\<close>).
\<close>

datatype filter_id = Events | Projects | Issue_types

fun setFilter :: "filter_id \<Rightarrow> string list \<Rightarrow> ChannelSubscriptionFilters \<Rightarrow> ChannelSubscriptionFilters" where
  "setFilter Events xs f = f\<lparr>events := xs\<rparr>"
| "setFilter Projects xs f = f\<lparr>projects := xs\<rparr>"
| "setFilter Issue_types xs f = f\<lparr>issue_types := xs\<rparr>"

fun getFilter :: "filter_id \<Rightarrow> ChannelSubscriptionFilters \<Rightarrow> string list" where
  "getFilter Events f = events f"
| "getFilter Projects f = projects f"
| "getFilter Issue_types f = issue_types f"

definition clearConflictingErrorMessage :: "State \<Rightarrow> State" where
  "clearConflictingErrorMessage st = st\<lparr>conflictingError := None\<rparr>"

definition handleSettingChange :: "State \<Rightarrow> filter_id \<Rightarrow> select_value \<Rightarrow> State" where
  "handleSettingChange st ident v =
     (let finalValue = toArray v;
          filters' = setFilter ident finalValue (filters st)
      in clearConflictingErrorMessage (st\<lparr>filters := filters'\<rparr>))"

definition handleFilterFieldChange :: "State \<Rightarrow> FilterValue list \<Rightarrow> State" where
  "handleFilterFieldChange st fs =
     clearConflictingErrorMessage (st\<lparr>filters := (filters st)\<lparr>fields' := fs\<rparr>\<rparr>)"

definition handleNameChange :: "State \<Rightarrow> string option \<Rightarrow> State" where
  "handleNameChange st v = st\<lparr>subscriptionName := v\<rparr>"

definition handleClose :: "State \<Rightarrow> State \<times> effect list" where
  "handleClose st = (st, [FinishEditSubscription])"

subsection \<open>Fetching the metadata of a project\<close>

text \<open>
  A JavaScript value as far as a condition tells values apart: the error of a result may
  be missing, an error object, or any other value. A number is given as an integer; a
  fractional number is truthy, as every number but zero and \<^verbatim>\<open>NaN\<close> is.
\<close>

datatype 'o js_value =
  JsUndefined | JsNull | JsBoolean bool | JsNumber int | JsNaN | JsString string | JsObject 'o

text \<open>
  \<^verbatim>\<open>if (value)\<close>: \<^verbatim>\<open>undefined\<close>, \<^verbatim>\<open>null\<close>, \<^verbatim>\<open>false\<close>, zero, \<^verbatim>\<open>NaN\<close> and the empty
  string are falsy; every object is truthy.
\<close>

fun truthy_value :: "'o js_value \<Rightarrow> bool" where
  "truthy_value JsUndefined = False"
| "truthy_value JsNull = False"
| "truthy_value (JsBoolean b) = b"
| "truthy_value (JsNumber n) = (n \<noteq> 0)"
| "truthy_value JsNaN = False"
| "truthy_value (JsString s) = (s \<noteq> [])"
| "truthy_value (JsObject obj) = True"

text \<open>
  Modelled from the spec: the action \<^verbatim>\<open>fetchJiraIssueMetadataForProjects\<close> is missing. Its
  result is \<^verbatim>\<open>{data, error}\<close>, where the data may carry an error of its own.
  \<open>fetched_error\<close> is what \<^verbatim>\<open>fetched.error\<close> reads, \<^verbatim>\<open>undefined\<close> when the result has no
  such property. \<open>fetched_data\<close> is \<open>None\<close> when \<^verbatim>\<open>fetched.data\<close> is falsy; otherwise
  \<open>data_error\<close> is what \<^verbatim>\<open>fetched.data.error\<close> reads.
\<close>

record 'o FetchedData =
  data_error :: "'o js_value"

record 'o Fetched =
  fetched_error :: "'o js_value"
  fetched_data :: "'o FetchedData option"

text \<open>
  The object the callback builds and hands to \<^verbatim>\<open>setState\<close>: \<^verbatim>\<open>fetchingIssueMetadata\<close>
  is always there; \<open>None\<close> is a property the callback did not set.
\<close>

record StatePatch =
  patch_fetchingIssueMetadata :: bool
  patch_getMetaDataErr :: "string option"
  patch_error :: "string option"

definition setState :: "StatePatch \<Rightarrow> State \<Rightarrow> State" where
  "setState p st =
     st\<lparr>fetchingIssueMetadata := patch_fetchingIssueMetadata p,
        getMetaDataErr := (case patch_getMetaDataErr p of None \<Rightarrow> getMetaDataErr st | Some m \<Rightarrow> Some m),
        error := (case patch_error p of None \<Rightarrow> error st | Some m \<Rightarrow> Some m)\<rparr>"

text \<open>\<^verbatim>\<open>projectKeys[0]\<close> inside a template string: \<^verbatim>\<open>undefined\<close> prints as its name.\<close>

definition projectUnavailable :: "string list \<Rightarrow> string" where
  "projectUnavailable projectKeys =
     ''The project '' @ (case projectKeys of [] \<Rightarrow> ''undefined'' | p # _ \<Rightarrow> p)
     @ '' is unavailable. Please contact your system administrator.''"

definition fieldRemoved :: string where
  "fieldRemoved =
     ''A field in this subscription has been removed from Jira, so the subscription is invalid. ''
     @ ''When this form is submitted, the configured field will be removed from the subscription ''
     @ ''to make the subscription valid again.''"

text \<open>The loop over the selected fields that flags a field missing from the schema.\<close>

fun flagRemoved :: "FilterField list \<Rightarrow> FilterValue list \<Rightarrow> StatePatch \<Rightarrow> StatePatch" where
  "flagRemoved filterFields [] p = p"
| "flagRemoved filterFields (v # vs) p =
     flagRemoved filterFields vs
       (if \<not> hasFilterField filterFields v then p\<lparr>patch_error := Some fieldRemoved\<rparr> else p)"

text \<open>
  The callback of \<^verbatim>\<open>fetchIssueMetadata(projectKeys)\<close>, run when the response arrives:
  \<open>P\<close> and \<open>st\<close> are the properties and the state at that moment. It builds the
  object \<^verbatim>\<open>state\<close> and hands it to \<^verbatim>\<open>setState\<close>; no test compares \<open>projectKeys\<close>
  with the projects selected at that moment. \<open>err\<close> is
  \<^verbatim>\<open>fetched.error || (fetched.data && fetched.data.error)\<close>; when the data is falsy the
  value is the data itself, which \<^verbatim>\<open>undefined\<close> stands for.
\<close>

definition fetchIssueMetadata_state ::
  "'m Utils \<Rightarrow> 'm Props \<Rightarrow> string list \<Rightarrow> 'o Fetched \<Rightarrow> State \<Rightarrow> StatePatch" where
  "fetchIssueMetadata_state U P projectKeys fetched st =
     (let p0 = \<lparr>patch_fetchingIssueMetadata = False, patch_getMetaDataErr = None, patch_error = None\<rparr>;
          err = (if truthy_value (fetched_error fetched) then fetched_error fetched
                 else case fetched_data fetched of None \<Rightarrow> JsUndefined | Some d \<Rightarrow> data_error d);
          p1 = (if truthy_value err
                then p0\<lparr>patch_getMetaDataErr := Some (projectUnavailable projectKeys)\<rparr>
                else p0);
          filterFields = getCustomFieldFiltersForProjects U (jiraIssueMetadata P) (projects (filters st))
      in flagRemoved filterFields (fields' (filters st)) p1)"

definition fetchIssueMetadata_then ::
  "'m Utils \<Rightarrow> 'm Props \<Rightarrow> string list \<Rightarrow> 'o Fetched \<Rightarrow> State \<Rightarrow> State" where
  "fetchIssueMetadata_then U P projectKeys fetched st =
     setState (fetchIssueMetadata_state U P projectKeys fetched st) st"

definition handleProjectChange :: "State \<Rightarrow> select_value \<Rightarrow> State \<times> effect list" where
  "handleProjectChange st v =
     (let st1 = clearConflictingErrorMessage st;
          projects' = toArray v;
          filters' = \<lparr>events = [], projects = projects', issue_types = [], fields' = []\<rparr>;
          fetching = (projects' \<noteq> [])
      in (st1\<lparr>fetchingIssueMetadata := fetching, getMetaDataErr := None, filters := filters'\<rparr>,
          ClearIssueMetadata #
            (if fetching then [FetchJiraIssueMetadataForProjects projects'] else [])))"

subsection \<open>Submitting and deleting\<close>

text \<open>
  The loop of \<^verbatim>\<open>handleCreate\<close> over the selected fields: a field whose key is not in the
  schema is spliced out of the copy, at the index \<^verbatim>\<open>indexOf\<close> returns. \<^verbatim>\<open>indexOf\<close>
  compares objects by identity and the model compares records by their content; an object
  the loop looks for is in the copy under either comparison, and two records with the same
  content have the same key, so they leave the copy together.
\<close>

fun spliceRemoved :: "FilterField list \<Rightarrow> FilterValue list \<Rightarrow> FilterValue list \<Rightarrow> FilterValue list" where
  "spliceRemoved filterFields [] configuredFields = configuredFields"
| "spliceRemoved filterFields (v # vs) configuredFields =
     spliceRemoved filterFields vs
       (if \<not> hasFilterField filterFields v
        then splice1 (indexOf configuredFields v) configuredFields
        else configuredFields)"

text \<open>
  \<^verbatim>\<open>handleCreate\<close>; \<open>valid\<close> is what \<^verbatim>\<open>this.validator.validate()\<close> returns. The
  subscription is sent to the edit call when a subscription was selected, to the create
  call otherwise. The DOM event and its \<^verbatim>\<open>preventDefault\<close> are left out.
\<close>

definition handleCreate :: "'m Utils \<Rightarrow> 'm Props \<Rightarrow> State \<Rightarrow> bool \<Rightarrow> State \<times> effect list" where
  "handleCreate U P st valid =
     (if \<not> valid then (st, [])
      else
        (let filterFields = getCustomFieldFiltersForProjects U (jiraIssueMetadata P) (projects (filters st));
             configuredFields = spliceRemoved filterFields (fields' (filters st)) (fields' (filters st));
             filters' = (filters st)\<lparr>fields' := configuredFields\<rparr>;
             subscription = \<lparr>subscription_id = None, channel_id = channel P,
                             subscription_filters = filters', subscription_name = subscriptionName st\<rparr>;
             st' = st\<lparr>submitting := True, error := None\<rparr>
         in case selectedSubscription P of
              Some sel \<Rightarrow>
                (st', [EditChannelSubscription (subscription\<lparr>subscription_id := Some (selected_id sel)\<rparr>)])
            | None \<Rightarrow> (st', [CreateChannelSubscription subscription])))"

text \<open>
  Modelled from the spec: the create, edit and delete actions are missing. Their result
  is \<^verbatim>\<open>{data|error}\<close>, and the error has the shape \<^verbatim>\<open>{message: string}\<close>.
\<close>

record ApiError =
  message :: string

record ApiResult =
  result_error :: "ApiError option"

definition editChannelSubscription_then :: "ApiResult \<Rightarrow> State \<Rightarrow> State \<times> effect list" where
  "editChannelSubscription_then edited st =
     (case result_error edited of
        Some e \<Rightarrow> (st\<lparr>error := Some (message e), submitting := False\<rparr>, [])
      | None \<Rightarrow> handleClose st)"

definition createChannelSubscription_then :: "ApiResult \<Rightarrow> State \<Rightarrow> State \<times> effect list" where
  "createChannelSubscription_then created st =
     (case result_error created of
        Some e \<Rightarrow> (st\<lparr>error := Some (message e), submitting := False\<rparr>, [])
      | None \<Rightarrow> handleClose st)"

definition deleteChannelSubscription :: "'m Props \<Rightarrow> State \<Rightarrow> State \<times> effect list" where
  "deleteChannelSubscription P st =
     (case selectedSubscription P of
        Some sel \<Rightarrow> (st, [DeleteChannelSubscription sel])
      | None \<Rightarrow> (st, []))"

definition deleteChannelSubscription_then :: "ApiResult \<Rightarrow> State \<Rightarrow> State \<times> effect list" where
  "deleteChannelSubscription_then res st =
     (case result_error res of
        Some e \<Rightarrow> (st\<lparr>error := Some (message e)\<rparr>, [])
      | None \<Rightarrow> handleClose st)"

definition handleCancelDelete :: "State \<Rightarrow> State" where
  "handleCancelDelete st = st\<lparr>showConfirmModal := False\<rparr>"

definition handleConfirmDelete :: "'m Props \<Rightarrow> State \<Rightarrow> State \<times> effect list" where
  "handleConfirmDelete P st = deleteChannelSubscription P (st\<lparr>showConfirmModal := False\<rparr>)"

definition handleDeleteChannelSubscription :: "State \<Rightarrow> State" where
  "handleDeleteChannelSubscription st = st\<lparr>showConfirmModal := True\<rparr>"

subsection \<open>The constructor\<close>

text \<open>
  \<^verbatim>\<open>Object.assign({}, filters, props.selectedSubscription.filters)\<close> takes every
  property of the stored filters; \<^verbatim>\<open>filters.fields || []\<close> then replaces a missing
  \<^verbatim>\<open>fields\<close> by the empty array.
\<close>

definition constructor :: "'m Props \<Rightarrow> State \<times> effect list" where
  "constructor P =
     (let filters0 = \<lparr>events = [], projects = [], issue_types = [], fields' = []\<rparr>;
          filters1 =
            (case selectedSubscription P of
               None \<Rightarrow> filters0
             | Some sel \<Rightarrow>
                 \<lparr>events = stored_events (selected_filters sel),
                  projects = stored_projects (selected_filters sel),
                  issue_types = stored_issue_types (selected_filters sel),
                  fields' = (case stored_fields (selected_filters sel) of None \<Rightarrow> [] | Some fs \<Rightarrow> fs)\<rparr>);
          subscriptionName' =
            (case selectedSubscription P of None \<Rightarrow> None | Some sel \<Rightarrow> Some (selected_name sel));
          fetching = (projects filters1 \<noteq> [])
      in (\<lparr>filters = filters1, fetchingIssueMetadata = fetching, error = None,
           getMetaDataErr = None, submitting = False, subscriptionName = subscriptionName',
           showConfirmModal = False, conflictingError = None\<rparr>,
          if fetching then [FetchJiraIssueMetadataForProjects (projects filters1)] else []))"

section \<open>The slash-command hook: \<^verbatim>\<open>hooks.js\<close>\<close>

text \<open>
  Modelled from the spec: the selectors, the user-agent tests and the plugin id are missing.
  The record holds what each of them returns when the hook runs.
\<close>

record HookEnv =
  isInstanceInstalled :: bool
  isUserConnected :: bool
  getInstalledInstanceType :: string
  isDesktopApp :: bool
  isMinimumDesktopAppVersion :: "nat \<Rightarrow> nat \<Rightarrow> nat \<Rightarrow> bool"
  PluginId :: string

text \<open>The context of the command; only \<^verbatim>\<open>channel_id\<close> is read, the rest is carried along.\<close>

record ContextArgs =
  args_channel_id :: string

datatype hook_effect =
  SendEphemeralPost string
| OpenCreateModalWithoutPost string string
| OpenChannelSettings string
| WindowOpen string string

text \<open>What the returned promise resolves to: \<^verbatim>\<open>{}\<close> or \<^verbatim>\<open>{message, args}\<close>.\<close>

datatype 'a hook_result = EmptyObject | Forward "string option" 'a

text \<open>
  \<^verbatim>\<open>String.prototype.trim\<close>: the white space and line terminators among the
  characters of \<open>char\<close>.
\<close>

definition isWhiteSpace :: "char \<Rightarrow> bool" where
  "isWhiteSpace c = (c \<in> set [CHR 0x09, CHR 0x0A, CHR 0x0B, CHR 0x0C, CHR 0x0D, CHR 0x20, CHR 0xA0])"

definition trim :: "string \<Rightarrow> string" where
  "trim s = rev (dropWhile isWhiteSpace (rev (dropWhile isWhiteSpace s)))"

definition noInstance :: string where
  "noInstance = ''There is no Jira instance installed. Please contact your system administrator.''"

definition notConnected :: string where
  "notConnected =
     ''Your Mattermost account is not connected to Jira. Please use `/jira connect` to connect your account, then try again.''"

definition alreadyConnected :: string where
  "alreadyConnected =
     ''You already have a Jira account linked to your Mattermost account. Please use `/jira disconnect` to disconnect.''"

text \<open>
  The source has a no-break space (U+00A0) before the space in front of the link and after
  the link; it is the character \<open>CHR 0xA0\<close>.
\<close>

definition desktopTooOld :: string where
  "desktopTooOld =
     ''The current version of your desktop app does not support connecting to Jira directly. ''
     @ ''Please connect through your browser or'' @ [CHR 0xA0]
     @ '' [see here](https://github.com/mattermost/mattermost-plugin-jira)'' @ [CHR 0xA0]
     @ '' for details on upgrading.''"

text \<open>
  \<^verbatim>\<open>slashCommandWillBePostedHook(message, contextArgs)\<close>: the effects in order, and
  the value of the promise. \<^verbatim>\<open>message && ...\<close> fails on \<^verbatim>\<open>null\<close>, \<^verbatim>\<open>undefined\<close>
  (\<open>None\<close>) and on the empty string, which starts with none of the prefixes.
\<close>

definition slashCommandWillBePostedHook ::
  "HookEnv \<Rightarrow> string option \<Rightarrow> 'z ContextArgs_scheme
   \<Rightarrow> hook_effect list \<times> ('z ContextArgs_scheme) hook_result" where
  "slashCommandWillBePostedHook env message' contextArgs =
     (case message' of
        None \<Rightarrow> ([], Forward message' contextArgs)
      | Some m \<Rightarrow>
          if startsWith m ''/jira create '' \<or> m = ''/jira create'' then
            (if \<not> isInstanceInstalled env then ([SendEphemeralPost noInstance], EmptyObject)
             else if \<not> isUserConnected env then ([SendEphemeralPost notConnected], EmptyObject)
             else ([OpenCreateModalWithoutPost (trim (drop 12 m)) (args_channel_id contextArgs)],
                   EmptyObject))
          else if startsWith m ''/jira connect'' \<or> m = ''/jira connect'' then
            (if \<not> isInstanceInstalled env then ([SendEphemeralPost noInstance], EmptyObject)
             else if isUserConnected env then ([SendEphemeralPost alreadyConnected], EmptyObject)
             else if getInstalledInstanceType env = ''server'' \<and> isDesktopApp env
                     \<and> \<not> isMinimumDesktopAppVersion env 4 3 0
             then ([SendEphemeralPost desktopTooOld], EmptyObject)
             else ([WindowOpen (''/plugins/'' @ PluginId env @ ''/user/connect'') ''_blank''],
                   EmptyObject))
          else if startsWith m ''/jira subscribe '' \<or> m = ''/jira subscribe'' then
            (if \<not> isInstanceInstalled env then ([SendEphemeralPost noInstance], EmptyObject)
             else if \<not> isUserConnected env then ([SendEphemeralPost notConnected], EmptyObject)
             else ([OpenChannelSettings (args_channel_id contextArgs)], EmptyObject))
          else ([], Forward message' contextArgs))"

section \<open>A schema for the examples\<close>

text \<open>
  Modelled from the spec: \<^verbatim>\<open>getCustomFieldFiltersForProjects\<close> and \<^verbatim>\<open>getConflictingFields\<close>
  of \<^verbatim>\<open>utils/jira_issue_metadata\<close> are not among the sources. The metadata here is the
  list of the custom-field filters of the project, each with the issue types it applies
  to; a field is flagged when it excludes at least one of the candidate issue types, and
  its conflict record pairs it with the issue types that do not support it. An issue type
  is named by its id. The theorems hold for every implementation; this one serves the
  examples.
\<close>

definition specConflictingFields ::
  "FilterField list \<Rightarrow> string list \<Rightarrow> FilterField list \<Rightarrow> ConflictingField list" where
  "specConflictingFields fs chosen md =
     concat (map (\<lambda>f.
       (let excluded = filter (\<lambda>t. t \<notin> set (map id' (field_issueTypes f))) chosen
        in if excluded = [] then []
           else [\<lparr>field = f, issueTypes = map (\<lambda>t. \<lparr>id' = t, name = t\<rparr>) excluded\<rparr>])) fs)"

definition specUtils :: "(FilterField list) Utils" where
  "specUtils =
     \<lparr>getCustomFieldFiltersForProjects = (\<lambda>md projectKeys. md),
      getConflictingFields = specConflictingFields\<rparr>"

text \<open>
  The example of the spec: project OPS, issue type Bug selected, the field \<open>f1\<close>
  selected; \<open>f1\<close> applies to Bug and Epic and not to Task. The schema has a second
  field \<open>f0\<close> that applies to Bug and Task and not to Epic.
\<close>

definition exampleField :: "string \<Rightarrow> string list \<Rightarrow> FilterField" where
  "exampleField k ts =
     \<lparr>field_key = k, field_name = k, field_issueTypes = map (\<lambda>t. \<lparr>id' = t, name = t\<rparr>) ts\<rparr>"

definition exampleF0 :: FilterField where
  "exampleF0 = exampleField ''f0'' [''Bug'', ''Task'']"

definition exampleF1 :: FilterField where
  "exampleF1 = exampleField ''f1'' [''Bug'', ''Epic'']"

definition exampleProps :: "(FilterField list) Props" where
  "exampleProps =
     \<lparr>jiraIssueMetadata = [exampleF0, exampleF1],
      selectedSubscription = None, channel = ''town-square''\<rparr>"

definition exampleValue :: "string \<Rightarrow> FilterValue" where
  "exampleValue k = \<lparr>key = k, inclusion = ''include_any'', values' = [''x'']\<rparr>"

definition exampleState :: "FilterValue list \<Rightarrow> State" where
  "exampleState fs =
     \<lparr>filters = \<lparr>events = [''event_created''], projects = [''OPS''],
                  issue_types = [''Bug''], fields' = fs\<rparr>,
      fetchingIssueMetadata = False, error = None, getMetaDataErr = None,
      submitting = False, subscriptionName = Some ''ops bugs'', showConfirmModal = False,
      conflictingError = None\<rparr>"

definition exampleEnv :: HookEnv where
  "exampleEnv =
     \<lparr>isInstanceInstalled = True, isUserConnected = True, getInstalledInstanceType = ''cloud'',
      isDesktopApp = False, isMinimumDesktopAppVersion = (\<lambda>major minor patch. True),
      PluginId = ''jira''\<rparr>"

definition exampleArgs :: ContextArgs where
  "exampleArgs = \<lparr>args_channel_id = ''town-square''\<rparr>"

section \<open>Lemmas about the helpers\<close>

lemma hasFilterField_iff: "hasFilterField ff v \<longleftrightarrow> key v \<in> field_key ` set ff"
  unfolding hasFilterField_def find_None_iff image_iff by force

lemma isSelected_iff: "isSelected sel c \<longleftrightarrow> field_key (field c) \<in> key ` set sel"
  unfolding isSelected_def find_None_iff image_iff by force

lemma indexOf_append_fresh:
  "v \<notin> set pre \<Longrightarrow> indexOf (pre @ v # suf) v = int (length pre)"
  by (induction pre) (auto simp: Let_def)

lemma splice1_at: "splice1 (int (length pre)) (pre @ v # suf) = pre @ suf"
  by (simp add: splice1_def Let_def)

lemma spliceRemoved_append:
  "\<forall>x \<in> set pre. hasFilterField ff x \<Longrightarrow>
   spliceRemoved ff vs (pre @ vs) = pre @ filter (hasFilterField ff) vs"
proof (induction vs arbitrary: pre)
  case Nil
  then show ?case by simp
next
  case (Cons v vs)
  show ?case
  proof (cases "hasFilterField ff v")
    case True
    with Cons.prems have "\<forall>x \<in> set (pre @ [v]). hasFilterField ff x" by simp
    from Cons.IH [OF this] True show ?thesis by simp
  next
    case False
    with Cons.prems have "v \<notin> set pre" by auto
    then have "splice1 (indexOf (pre @ v # vs) v) (pre @ v # vs) = pre @ vs"
      by (simp add: indexOf_append_fresh splice1_at)
    with False Cons.IH [OF Cons.prems] show ?thesis by simp
  qed
qed

lemma spliceRemoved_filter: "spliceRemoved ff vs vs = filter (hasFilterField ff) vs"
  using spliceRemoved_append [of "[]" ff vs] by simp

lemma accept_neq_reject:
  "st\<lparr>filters := f, conflictingError := None\<rparr> \<noteq> st\<lparr>conflictingError := Some m\<rparr>"
proof
  assume "st\<lparr>filters := f, conflictingError := None\<rparr> = st\<lparr>conflictingError := Some m\<rparr>"
  then have "conflictingError (st\<lparr>filters := f, conflictingError := None\<rparr>)
    = conflictingError (st\<lparr>conflictingError := Some m\<rparr>)" by (rule arg_cong)
  then show False by simp
qed

lemma handleIssueChange_short:
  "\<not> length (orEmpty v) > length (issue_types (filters st)) \<Longrightarrow>
   handleIssueChange U P st v =
     Inr (st\<lparr>filters := (filters st)\<lparr>issue_types := orEmpty v\<rparr>, conflictingError := None\<rparr>)"
  by (simp add: handleIssueChange_def)

lemma handleIssueChange_long:
  "length (orEmpty v) > length (issue_types (filters st)) \<Longrightarrow>
   getConflictingFields U
           (getCustomFieldFiltersForProjects U (jiraIssueMetadata P) (projects (filters st)))
           (orEmpty v) (jiraIssueMetadata P) = cfs \<Longrightarrow>
   handleIssueChange U P st v =
     (if filter (isSelected (fields' (filters st))) cfs = []
      then Inr (st\<lparr>filters := (filters st)\<lparr>issue_types := orEmpty v\<rparr>, conflictingError := None\<rparr>)
      else case issueTypes (hd cfs) of
             [] \<Rightarrow> Inl TypeError
           | t # _ \<Rightarrow> Inr (st\<lparr>conflictingError := Some (conflictingErrorStr (name t)
                 (join '', '' (map (\<lambda>cf. field_name (field cf))
                    (filter (isSelected (fields' (filters st))) cfs))))\<rparr>))"
  by (cases cfs; clarsimp simp: handleIssueChange_def Let_def simp del: filter.simps)

lemma isSelected_eq:
  "isSelected sel = (\<lambda>c. field_key (field c) \<in> key ` set sel)"
  by (rule ext) (rule isSelected_iff)

lemmas example_defs =
  specUtils_def specConflictingFields_def exampleProps_def exampleF0_def exampleF1_def
  exampleField_def exampleValue_def

lemma conflicts_bug_task:
  "getConflictingFields specUtils
     (getCustomFieldFiltersForProjects specUtils (jiraIssueMetadata exampleProps) ps)
     [''Bug'', ''Task''] (jiraIssueMetadata exampleProps) =
   [\<lparr>field = exampleF1, issueTypes = [\<lparr>id' = ''Task'', name = ''Task''\<rparr>]\<rparr>]"
  by (simp add: example_defs)

lemma conflicts_bug_epic:
  "getConflictingFields specUtils
     (getCustomFieldFiltersForProjects specUtils (jiraIssueMetadata exampleProps) ps)
     [''Bug'', ''Epic''] (jiraIssueMetadata exampleProps) =
   [\<lparr>field = exampleF0, issueTypes = [\<lparr>id' = ''Epic'', name = ''Epic''\<rparr>]\<rparr>]"
  by (simp add: example_defs)

lemma conflicts_bug_epic_task:
  "getConflictingFields specUtils
     (getCustomFieldFiltersForProjects specUtils (jiraIssueMetadata exampleProps) ps)
     [''Bug'', ''Epic'', ''Task''] (jiraIssueMetadata exampleProps) =
   [\<lparr>field = exampleF0, issueTypes = [\<lparr>id' = ''Epic'', name = ''Epic''\<rparr>]\<rparr>,
    \<lparr>field = exampleF1, issueTypes = [\<lparr>id' = ''Task'', name = ''Task''\<rparr>]\<rparr>]"
  by (simp add: example_defs)

lemma conflicts_task_story:
  "getConflictingFields specUtils
     (getCustomFieldFiltersForProjects specUtils (jiraIssueMetadata exampleProps) ps)
     [''Task'', ''Story''] (jiraIssueMetadata exampleProps) =
   [\<lparr>field = exampleF0, issueTypes = [\<lparr>id' = ''Story'', name = ''Story''\<rparr>]\<rparr>,
    \<lparr>field = exampleF1, issueTypes =
       [\<lparr>id' = ''Task'', name = ''Task''\<rparr>, \<lparr>id' = ''Story'', name = ''Story''\<rparr>]\<rparr>]"
  by (simp add: example_defs)

lemma example_keys:
  "field_key exampleF0 = ''f0''" "field_key exampleF1 = ''f1''"
  "field_name exampleF0 = ''f0''" "field_name exampleF1 = ''f1''"
  "key (exampleValue k) = k"
  by (simp_all add: example_defs)

lemma example_filters [simp]:
  "filters (exampleState fs) = \<lparr>events = [''event_created''], projects = [''OPS''],
                  issue_types = [''Bug''], fields' = fs\<rparr>"
  by (simp add: exampleState_def)

lemma flagRemoved_fetching:
  "patch_fetchingIssueMetadata (flagRemoved ff vs p) = patch_fetchingIssueMetadata p"
  by (induction vs arbitrary: p) simp_all

lemma flagRemoved_getMetaDataErr:
  "patch_getMetaDataErr (flagRemoved ff vs p) = patch_getMetaDataErr p"
  by (induction vs arbitrary: p) simp_all

lemma flagRemoved_error:
  "patch_error (flagRemoved ff vs p) = patch_error p
   \<or> patch_error (flagRemoved ff vs p) = Some fieldRemoved"
  by (induction vs arbitrary: p) (simp, force)

lemma startsWith_self: "startsWith s s"
  by (simp add: startsWith_def)

section \<open>Changing the issue types\<close>

text \<open>
  Claim C1, as the code has it by design. When \<^verbatim>\<open>handleIssueChange\<close> is called with a
  selection longer than the stored one, and a conflict record computed for the new
  selection has the key of a selected field, and the first conflict record carries an
  issue type (its name is read), then the change is rejected: the filters keep their prior
  value, \<open>issue_types\<close> included, and \<open>conflictingError\<close> is the conflict message whose
  field list is the names of the conflicting fields that are selected, joined by a comma
  and a space. When the first conflict record is that of a selected field, the message
  names the first issue type of that record. Which issue type the message names when the
  first conflict record is that of a field that is not selected is not part of the
  statement.
\<close>

theorem handleIssueChange_rejects_selected_conflict:
  assumes "length (orEmpty v) > length (issue_types (filters st))"
    and "cfs = getConflictingFields U
           (getCustomFieldFiltersForProjects U (jiraIssueMetadata P) (projects (filters st)))
           (orEmpty v) (jiraIssueMetadata P)"
    and "\<exists>c \<in> set cfs. field_key (field c) \<in> key ` set (fields' (filters st))"
    and "issueTypes (hd cfs) = t # ts"
  shows "\<exists>st' n. handleIssueChange U P st v = Inr st'
     \<and> filters st' = filters st
     \<and> conflictingError st' = Some (conflictingErrorStr n
          (join '', '' (map (\<lambda>c. field_name (field c))
             (filter (\<lambda>c. field_key (field c) \<in> key ` set (fields' (filters st))) cfs))))
     \<and> (field_key (field (hd cfs)) \<in> key ` set (fields' (filters st)) \<longrightarrow> n = name t)"
proof -
  from assms(3) have ne: "filter (isSelected (fields' (filters st))) cfs \<noteq> []"
    by (simp add: isSelected_eq filter_empty_conv)
  let ?m = "conflictingErrorStr (name t)
          (join '', '' (map (\<lambda>c. field_name (field c))
             (filter (\<lambda>c. field_key (field c) \<in> key ` set (fields' (filters st))) cfs)))"
  let ?r = "st\<lparr>conflictingError := Some ?m\<rparr>"
  have "handleIssueChange U P st v = Inr ?r"
    using handleIssueChange_long [OF assms(1) assms(2) [symmetric]] ne assms(4)
    by (simp add: isSelected_eq)
  moreover have "filters ?r = filters st" by simp
  moreover have "conflictingError ?r = Some ?m" by simp
  ultimately show ?thesis by blast
qed

text \<open>
  The example of the spec: project OPS, \<open>f1\<close> selected, Bug selected, Task added. The only
  conflict record is that of \<open>f1\<close>; the change is rejected and the message names Task and
  \<open>f1\<close>.
\<close>

theorem handleIssueChange_rejects_selected_conflict_witness:
  "length (orEmpty (Some [''Bug'', ''Task''])) > length (issue_types (filters (exampleState [exampleValue ''f1''])))
   \<and> (\<exists>st'. handleIssueChange specUtils exampleProps (exampleState [exampleValue ''f1''])
               (Some [''Bug'', ''Task'']) = Inr st'
          \<and> filters st' = filters (exampleState [exampleValue ''f1''])
          \<and> conflictingError st' = Some (conflictingErrorStr ''Task'' ''f1''))"
proof -
  let ?st = "exampleState [exampleValue ''f1'']"
  let ?cfs = "[\<lparr>field = exampleF1, issueTypes = [\<lparr>id' = ''Task'', name = ''Task''\<rparr>]\<rparr>]"
  have h1: "length (orEmpty (Some [''Bug'', ''Task''])) > length (issue_types (filters ?st))"
    by (simp add: orEmpty_def)
  have h2: "?cfs = getConflictingFields specUtils
           (getCustomFieldFiltersForProjects specUtils (jiraIssueMetadata exampleProps) (projects (filters ?st)))
           (orEmpty (Some [''Bug'', ''Task''])) (jiraIssueMetadata exampleProps)"
    by (simp add: orEmpty_def conflicts_bug_task)
  have h3: "\<exists>c \<in> set ?cfs. field_key (field c) \<in> key ` set (fields' (filters ?st))"
    by (simp add: example_keys)
  have h4: "issueTypes (hd ?cfs) = \<lparr>id' = ''Task'', name = ''Task''\<rparr> # []"
    by simp
  have h5: "field_key (field (hd ?cfs)) \<in> key ` set (fields' (filters ?st))"
    by (simp add: example_keys)
  from handleIssueChange_rejects_selected_conflict [OF h1 h2 h3 h4]
  obtain st' n where
    r: "handleIssueChange specUtils exampleProps ?st (Some [''Bug'', ''Task'']) = Inr st'"
    and f: "filters st' = filters ?st"
    and c: "conflictingError st' = Some (conflictingErrorStr n
          (join '', '' (map (\<lambda>c. field_name (field c))
             (filter (\<lambda>c. field_key (field c) \<in> key ` set (fields' (filters ?st))) ?cfs))))"
    and n: "field_key (field (hd ?cfs)) \<in> key ` set (fields' (filters ?st))
            \<longrightarrow> n = name \<lparr>id' = ''Task'', name = ''Task''\<rparr>"
    by blast
  from n h5 have "n = ''Task''" by simp
  with c have "conflictingError st' = Some (conflictingErrorStr ''Task'' ''f1'')"
    by (simp add: example_keys)
  with h1 r f show ?thesis by blast
qed

text \<open>
  Claim C1 as stated says the message lists all the conflicting field names. Epic and Task
  are added while \<open>f1\<close> is selected: the conflict records are \<open>f0\<close> with Epic and \<open>f1\<close>
  with Task. The change is rejected with a message that lists \<open>f1\<close> alone: the
  conflicting field \<open>f0\<close>, which is not selected, is left out, as the narrowing to the
  selected fields intends. The same message names Epic, the issue type of the record of
  \<open>f0\<close>, although the selected \<open>f1\<close> applies to Epic and conflicts with Task: the issue
  type is read from the list that was not narrowed.
\<close>

theorem handleIssueChange_lists_selected_fields_only:
  "getConflictingFields specUtils
     (getCustomFieldFiltersForProjects specUtils (jiraIssueMetadata exampleProps) [''OPS''])
     [''Bug'', ''Epic'', ''Task''] (jiraIssueMetadata exampleProps) =
   [\<lparr>field = exampleF0, issueTypes = [\<lparr>id' = ''Epic'', name = ''Epic''\<rparr>]\<rparr>,
    \<lparr>field = exampleF1, issueTypes = [\<lparr>id' = ''Task'', name = ''Task''\<rparr>]\<rparr>]
   \<and> handleIssueChange specUtils exampleProps (exampleState [exampleValue ''f1''])
        (Some [''Bug'', ''Epic'', ''Task'']) =
      Inr ((exampleState [exampleValue ''f1''])
             \<lparr>conflictingError := Some (conflictingErrorStr ''Epic'' ''f1'')\<rparr>)
   \<and> conflictingErrorStr ''Epic'' ''f1'' \<noteq> conflictingErrorStr ''Epic'' ''f0, f1''
   \<and> conflictingErrorStr ''Epic'' ''f1'' \<noteq> conflictingErrorStr ''Task'' ''f1''"
proof -
  have "handleIssueChange specUtils exampleProps (exampleState [exampleValue ''f1''])
        (Some [''Bug'', ''Epic'', ''Task'']) =
      Inr ((exampleState [exampleValue ''f1''])
             \<lparr>conflictingError := Some (conflictingErrorStr ''Epic'' ''f1'')\<rparr>)"
    by (simp add: handleIssueChange_def orEmpty_def conflicts_bug_epic_task isSelected_eq
        example_keys)
  moreover have "conflictingErrorStr ''Epic'' ''f1'' \<noteq> conflictingErrorStr ''Epic'' ''f0, f1''"
    by (simp add: conflictingErrorStr_def)
  moreover have "conflictingErrorStr ''Epic'' ''f1'' \<noteq> conflictingErrorStr ''Task'' ''f1''"
    by (simp add: conflictingErrorStr_def)
  ultimately show ?thesis by (simp add: conflicts_bug_epic_task)
qed

text \<open>
  Claim C2. When no conflict record computed for the new selection has the key of a
  selected field, \<^verbatim>\<open>handleIssueChange\<close> accepts the change: \<open>issue_types\<close> becomes the new
  selection and \<open>conflictingError\<close> becomes \<open>None\<close>. This holds whether or not the
  selection grew, and whatever the conflict records of the fields that are not selected.
\<close>

theorem handleIssueChange_accepts_without_selected_conflict:
  assumes "\<forall>c \<in> set (getConflictingFields U
              (getCustomFieldFiltersForProjects U (jiraIssueMetadata P) (projects (filters st)))
              (orEmpty v) (jiraIssueMetadata P)).
             field_key (field c) \<notin> key ` set (fields' (filters st))"
  shows "handleIssueChange U P st v =
     Inr (st\<lparr>filters := (filters st)\<lparr>issue_types := orEmpty v\<rparr>, conflictingError := None\<rparr>)"
proof (cases "length (orEmpty v) > length (issue_types (filters st))")
  case False
  then show ?thesis by (rule handleIssueChange_short)
next
  case True
  from assms have "filter (isSelected (fields' (filters st))) (getConflictingFields U
              (getCustomFieldFiltersForProjects U (jiraIssueMetadata P) (projects (filters st)))
              (orEmpty v) (jiraIssueMetadata P)) = []"
    by (simp add: isSelected_eq filter_empty_conv)
  with handleIssueChange_long [where U=U and P=P, OF True refl] show ?thesis by simp
qed

text \<open>
  An expansion from Bug to Bug and Epic while \<open>f1\<close> is selected: the schema field \<open>f0\<close>,
  which is not selected, conflicts with Epic; \<open>f1\<close> applies to Epic. The change is
  accepted.
\<close>

theorem handleIssueChange_accepts_without_selected_conflict_witness:
  "length [''Bug'', ''Epic''] > length (issue_types (filters (exampleState [exampleValue ''f1''])))
   \<and> getConflictingFields specUtils
       (getCustomFieldFiltersForProjects specUtils (jiraIssueMetadata exampleProps) [''OPS''])
       [''Bug'', ''Epic''] (jiraIssueMetadata exampleProps) \<noteq> []
   \<and> handleIssueChange specUtils exampleProps (exampleState [exampleValue ''f1''])
       (Some [''Bug'', ''Epic'']) =
     Inr ((exampleState [exampleValue ''f1''])
       \<lparr>filters := (filters (exampleState [exampleValue ''f1'']))\<lparr>issue_types := [''Bug'', ''Epic'']\<rparr>,
        conflictingError := None\<rparr>)"
proof -
  let ?st = "exampleState [exampleValue ''f1'']"
  have h: "\<forall>c \<in> set (getConflictingFields specUtils
              (getCustomFieldFiltersForProjects specUtils (jiraIssueMetadata exampleProps) (projects (filters ?st)))
              (orEmpty (Some [''Bug'', ''Epic''])) (jiraIssueMetadata exampleProps)).
             field_key (field c) \<notin> key ` set (fields' (filters ?st))"
    by (simp add: orEmpty_def conflicts_bug_epic example_keys)
  show ?thesis
    using handleIssueChange_accepts_without_selected_conflict [OF h]
    by (simp add: orEmpty_def conflicts_bug_epic)
qed

text \<open>
  Claim C6, as the code has it. The conflicts are computed exactly when the new selection
  has more entries than the stored one. When it has not, the change is applied whatever
  \<^verbatim>\<open>getConflictingFields\<close> would return. When it has, the change is applied if and only if
  no conflict record, computed from the filter fields of the schema and all the issue
  types of the new selection, has the key of one of the selected fields.
\<close>

theorem handleIssueChange_checks_iff_longer:
  "(\<not> length (orEmpty v) > length (issue_types (filters st)) \<longrightarrow>
      handleIssueChange U P st v =
        Inr (st\<lparr>filters := (filters st)\<lparr>issue_types := orEmpty v\<rparr>, conflictingError := None\<rparr>))
   \<and> (length (orEmpty v) > length (issue_types (filters st)) \<longrightarrow>
        (handleIssueChange U P st v =
           Inr (st\<lparr>filters := (filters st)\<lparr>issue_types := orEmpty v\<rparr>, conflictingError := None\<rparr>))
        = (\<forall>c \<in> set (getConflictingFields U
              (getCustomFieldFiltersForProjects U (jiraIssueMetadata P) (projects (filters st)))
              (orEmpty v) (jiraIssueMetadata P)).
             \<forall>f \<in> set (fields' (filters st)). field_key (field c) \<noteq> key f))"
proof (intro conjI impI)
  assume "\<not> length (orEmpty v) > length (issue_types (filters st))"
  then show "handleIssueChange U P st v =
        Inr (st\<lparr>filters := (filters st)\<lparr>issue_types := orEmpty v\<rparr>, conflictingError := None\<rparr>)"
    by (rule handleIssueChange_short)
next
  assume long: "length (orEmpty v) > length (issue_types (filters st))"
  let ?cfs = "getConflictingFields U
              (getCustomFieldFiltersForProjects U (jiraIssueMetadata P) (projects (filters st)))
              (orEmpty v) (jiraIssueMetadata P)"
  let ?acc = "st\<lparr>filters := (filters st)\<lparr>issue_types := orEmpty v\<rparr>, conflictingError := None\<rparr>"
  have eq: "(filter (isSelected (fields' (filters st))) ?cfs = [])
     = (\<forall>c \<in> set ?cfs. \<forall>f \<in> set (fields' (filters st)). field_key (field c) \<noteq> key f)"
    by (auto simp: isSelected_eq filter_empty_conv)
  have "(handleIssueChange U P st v = Inr ?acc) = (filter (isSelected (fields' (filters st))) ?cfs = [])"
    using handleIssueChange_long [where U=U and P=P, OF long refl]
    by (auto simp: accept_neq_reject accept_neq_reject [THEN not_sym] split: list.splits)
  with eq show "(handleIssueChange U P st v = Inr ?acc)
     = (\<forall>c \<in> set ?cfs. \<forall>f \<in> set (fields' (filters st)). field_key (field c) \<noteq> key f)"
    by simp
qed

text \<open>
  Both halves on the example: from Bug to Task the selection is no longer and the change is
  applied although \<open>f1\<close> does not apply to Task; from Bug to Bug and Task the selection is
  longer, the selected \<open>f1\<close> conflicts, and the change is not applied.
\<close>

theorem handleIssueChange_checks_iff_longer_witness:
  "(\<not> length (orEmpty (Some [''Task''])) > length (issue_types (filters (exampleState [exampleValue ''f1'']))))
   \<and> handleIssueChange specUtils exampleProps (exampleState [exampleValue ''f1'']) (Some [''Task'']) =
       Inr ((exampleState [exampleValue ''f1''])
         \<lparr>filters := (filters (exampleState [exampleValue ''f1'']))\<lparr>issue_types := [''Task'']\<rparr>,
          conflictingError := None\<rparr>)
   \<and> length (orEmpty (Some [''Bug'', ''Task''])) > length (issue_types (filters (exampleState [exampleValue ''f1''])))
   \<and> handleIssueChange specUtils exampleProps (exampleState [exampleValue ''f1'']) (Some [''Bug'', ''Task'']) \<noteq>
       Inr ((exampleState [exampleValue ''f1''])
         \<lparr>filters := (filters (exampleState [exampleValue ''f1'']))\<lparr>issue_types := [''Bug'', ''Task'']\<rparr>,
          conflictingError := None\<rparr>)"
proof -
  let ?st = "exampleState [exampleValue ''f1'']"
  have h1: "\<not> length (orEmpty (Some [''Task''])) > length (issue_types (filters ?st))"
    by (simp add: orEmpty_def)
  have h2: "length (orEmpty (Some [''Bug'', ''Task''])) > length (issue_types (filters ?st))"
    by (simp add: orEmpty_def)
  have h3: "\<not> (\<forall>c \<in> set (getConflictingFields specUtils
              (getCustomFieldFiltersForProjects specUtils (jiraIssueMetadata exampleProps) (projects (filters ?st)))
              (orEmpty (Some [''Bug'', ''Task''])) (jiraIssueMetadata exampleProps)).
             \<forall>f \<in> set (fields' (filters ?st)). field_key (field c) \<noteq> key f)"
    by (simp add: orEmpty_def conflicts_bug_task example_keys)
  from handleIssueChange_checks_iff_longer [where v="Some [''Task'']" and st="?st" and U=specUtils and P=exampleProps] h1
  have a: "handleIssueChange specUtils exampleProps ?st (Some [''Task'']) =
       Inr (?st\<lparr>filters := (filters ?st)\<lparr>issue_types := [''Task'']\<rparr>, conflictingError := None\<rparr>)"
    by (simp add: orEmpty_def del: example_filters)
  from handleIssueChange_checks_iff_longer [where v="Some [''Bug'', ''Task'']" and st="?st" and U=specUtils and P=exampleProps] h2 h3
  have b: "handleIssueChange specUtils exampleProps ?st (Some [''Bug'', ''Task'']) \<noteq>
       Inr (?st\<lparr>filters := (filters ?st)\<lparr>issue_types := [''Bug'', ''Task'']\<rparr>, conflictingError := None\<rparr>)"
    by (simp add: orEmpty_def del: example_filters)
  from h1 h2 a b show ?thesis by (simp del: example_filters)
qed

text \<open>
  Claim C6 as stated takes the test to be that the new selection is a strict superset of
  the stored one. Going from Bug to Task and Story is no superset, yet the selection is
  longer: the conflicts are computed and the change is rejected, not applied.
\<close>

theorem handleIssueChange_checks_longer_non_superset:
  "\<not> set (issue_types (filters (exampleState [exampleValue ''f1''])))
       \<subset> set (orEmpty (Some [''Task'', ''Story'']))
   \<and> handleIssueChange specUtils exampleProps (exampleState [exampleValue ''f1''])
        (Some [''Task'', ''Story'']) =
      Inr ((exampleState [exampleValue ''f1''])
             \<lparr>conflictingError := Some (conflictingErrorStr ''Story'' ''f1'')\<rparr>)
   \<and> handleIssueChange specUtils exampleProps (exampleState [exampleValue ''f1''])
        (Some [''Task'', ''Story'']) \<noteq>
      Inr ((exampleState [exampleValue ''f1''])
       \<lparr>filters := (filters (exampleState [exampleValue ''f1'']))\<lparr>issue_types := [''Task'', ''Story'']\<rparr>,
        conflictingError := None\<rparr>)"
proof -
  have a: "handleIssueChange specUtils exampleProps (exampleState [exampleValue ''f1''])
        (Some [''Task'', ''Story'']) =
      Inr ((exampleState [exampleValue ''f1''])
             \<lparr>conflictingError := Some (conflictingErrorStr ''Story'' ''f1'')\<rparr>)"
    by (simp add: handleIssueChange_def orEmpty_def conflicts_task_story isSelected_eq
        example_keys)
  have b: "\<not> set (issue_types (filters (exampleState [exampleValue ''f1''])))
       \<subset> set (orEmpty (Some [''Task'', ''Story'']))"
    by (auto simp: orEmpty_def)
  from a b show ?thesis
    by (simp add: accept_neq_reject [THEN not_sym] del: example_filters)
qed

section \<open>Submitting\<close>

text \<open>
  Claim C3. When the form is valid, \<^verbatim>\<open>handleCreate\<close> sends exactly one subscription,
  to the edit call or to the create call, and the fields of its filters are the selected
  fields whose key is among the custom-field filters of the current metadata, in their
  order: no entry has a key that is absent from them, and every selected field whose key
  is present is retained.
\<close>

theorem handleCreate_drops_removed_fields:
  "\<exists>sub. (snd (handleCreate U P st True) = [EditChannelSubscription sub]
           \<or> snd (handleCreate U P st True) = [CreateChannelSubscription sub])
     \<and> fields' (subscription_filters sub) =
         filter (\<lambda>v. key v \<in> field_key ` set (getCustomFieldFiltersForProjects U
                    (jiraIssueMetadata P) (projects (filters st))))
           (fields' (filters st))
     \<and> (\<forall>v \<in> set (fields' (subscription_filters sub)).
           key v \<in> field_key ` set (getCustomFieldFiltersForProjects U
                    (jiraIssueMetadata P) (projects (filters st))))
     \<and> (\<forall>v \<in> set (fields' (filters st)).
           key v \<in> field_key ` set (getCustomFieldFiltersForProjects U
                    (jiraIssueMetadata P) (projects (filters st)))
           \<longrightarrow> v \<in> set (fields' (subscription_filters sub)))"
proof -
  let ?ff = "getCustomFieldFiltersForProjects U (jiraIssueMetadata P) (projects (filters st))"
  have eq: "hasFilterField ?ff = (\<lambda>v. key v \<in> field_key ` set ?ff)"
    by (rule ext) (rule hasFilterField_iff)
  show ?thesis
    by (cases "selectedSubscription P")
       (simp_all add: handleCreate_def Let_def spliceRemoved_filter eq)
qed

text \<open>
  Three selected fields, of which \<open>gone\<close> is no longer in the schema: the payload keeps
  \<open>f1\<close> and \<open>f0\<close>.
\<close>

theorem handleCreate_drops_removed_fields_witness:
  "snd (handleCreate specUtils exampleProps
          (exampleState [exampleValue ''f1'', exampleValue ''gone'', exampleValue ''f0'']) True) =
   [CreateChannelSubscription
      \<lparr>subscription_id = None, channel_id = ''town-square'',
       subscription_filters = \<lparr>events = [''event_created''], projects = [''OPS''],
          issue_types = [''Bug''], fields' = [exampleValue ''f1'', exampleValue ''f0'']\<rparr>,
       subscription_name = Some ''ops bugs''\<rparr>]"
proof -
  let ?st = "exampleState [exampleValue ''f1'', exampleValue ''gone'', exampleValue ''f0'']"
  from handleCreate_drops_removed_fields [where U=specUtils and P=exampleProps and st="?st"]
  obtain sub where
    s: "snd (handleCreate specUtils exampleProps ?st True) = [EditChannelSubscription sub]
        \<or> snd (handleCreate specUtils exampleProps ?st True) = [CreateChannelSubscription sub]"
    and f: "fields' (subscription_filters sub) =
         filter (\<lambda>v. key v \<in> field_key ` set (getCustomFieldFiltersForProjects specUtils
                    (jiraIssueMetadata exampleProps) (projects (filters ?st))))
           (fields' (filters ?st))"
    by blast
  from f have f': "fields' (subscription_filters sub) = [exampleValue ''f1'', exampleValue ''f0'']"
    by (simp add: example_defs)
  have c: "snd (handleCreate specUtils exampleProps ?st True) =
    [CreateChannelSubscription
      \<lparr>subscription_id = None, channel_id = ''town-square'',
       subscription_filters = \<lparr>events = [''event_created''], projects = [''OPS''],
          issue_types = [''Bug''], fields' = spliceRemoved [exampleF0, exampleF1]
             [exampleValue ''f1'', exampleValue ''gone'', exampleValue ''f0'']
             [exampleValue ''f1'', exampleValue ''gone'', exampleValue ''f0'']\<rparr>,
       subscription_name = Some ''ops bugs''\<rparr>]"
    by (simp add: handleCreate_def Let_def specUtils_def exampleProps_def exampleState_def)
  from s c f' show ?thesis by auto
qed

text \<open>
  Claim C8. When a create, edit or delete call returns an error, the callback stores the
  error's message, as it is, in the \<open>error\<close> of the state, does not call
  \<^verbatim>\<open>finishEditSubscription\<close> (the modal stays open), and leaves the filters as they
  were.
\<close>

theorem persistence_error_surfaced:
  assumes "result_error res = Some e"
  shows "error (fst (createChannelSubscription_then res st)) = Some (message e)
     \<and> FinishEditSubscription \<notin> set (snd (createChannelSubscription_then res st))
     \<and> filters (fst (createChannelSubscription_then res st)) = filters st
     \<and> error (fst (editChannelSubscription_then res st)) = Some (message e)
     \<and> FinishEditSubscription \<notin> set (snd (editChannelSubscription_then res st))
     \<and> filters (fst (editChannelSubscription_then res st)) = filters st
     \<and> error (fst (deleteChannelSubscription_then res st)) = Some (message e)
     \<and> FinishEditSubscription \<notin> set (snd (deleteChannelSubscription_then res st))
     \<and> filters (fst (deleteChannelSubscription_then res st)) = filters st"
  using assms
  by (simp add: createChannelSubscription_then_def editChannelSubscription_then_def
        deleteChannelSubscription_then_def)

text \<open>A create call refused by the server while the form is submitting.\<close>

theorem persistence_error_surfaced_witness:
  "result_error \<lparr>result_error = Some \<lparr>message = ''subscription name already in use''\<rparr>\<rparr>
     = Some \<lparr>message = ''subscription name already in use''\<rparr>
   \<and> createChannelSubscription_then \<lparr>result_error = Some \<lparr>message = ''subscription name already in use''\<rparr>\<rparr>
        ((exampleState [exampleValue ''f1''])\<lparr>submitting := True\<rparr>)
      = ((exampleState [exampleValue ''f1''])\<lparr>error := Some ''subscription name already in use''\<rparr>, [])
   \<and> error (fst (deleteChannelSubscription_then \<lparr>result_error = Some \<lparr>message = ''subscription name already in use''\<rparr>\<rparr>
        (exampleState [exampleValue ''f1''])))
      = Some ''subscription name already in use''"
proof -
  let ?e = "\<lparr>message = ''subscription name already in use''\<rparr>"
  let ?res = "\<lparr>result_error = Some ?e\<rparr>"
  have h: "result_error ?res = Some ?e" by simp
  have c: "createChannelSubscription_then ?res ((exampleState [exampleValue ''f1''])\<lparr>submitting := True\<rparr>)
      = ((exampleState [exampleValue ''f1''])\<lparr>error := Some ''subscription name already in use''\<rparr>, [])"
    by (simp add: createChannelSubscription_then_def exampleState_def)
  from persistence_error_surfaced [OF h, of "exampleState [exampleValue ''f1'']"] h c
  show ?thesis by simp
qed

section \<open>Changing the project and fetching its metadata\<close>

text \<open>
  Claim C5. After \<^verbatim>\<open>handleProjectChange\<close>, whatever the prior state and whatever the
  value (none included), the events, the issue types and the fields of the filters are
  empty.
\<close>

theorem handleProjectChange_clears_filters:
  "events (filters (fst (handleProjectChange st v))) = []
   \<and> issue_types (filters (fst (handleProjectChange st v))) = []
   \<and> fields' (filters (fst (handleProjectChange st v))) = []"
  by (simp add: handleProjectChange_def Let_def clearConflictingErrorMessage_def)

text \<open>
  Claim C7. A result carries an error when the value is truthy, which is what the callback
  tests. A fetch result with a truthy top-level error and a fetch result whose data has a
  truthy error both make the callback set \<open>getMetaDataErr\<close> to the same message, which
  depends on the requested project keys only. A result with neither, a falsy value such as
  the empty string in either place included, sets no such message: the object handed to
  \<^verbatim>\<open>setState\<close> has no \<open>getMetaDataErr\<close> and the state keeps the value it had.
\<close>

theorem fetchIssueMetadata_error_message:
  "(truthy_value (fetched_error fetched) \<longrightarrow>
      patch_getMetaDataErr (fetchIssueMetadata_state U P projectKeys fetched st)
        = Some (projectUnavailable projectKeys)
      \<and> getMetaDataErr (fetchIssueMetadata_then U P projectKeys fetched st)
        = Some (projectUnavailable projectKeys))
   \<and> (fetched_data fetched = Some d \<and> truthy_value (data_error d) \<longrightarrow>
      patch_getMetaDataErr (fetchIssueMetadata_state U P projectKeys fetched st)
        = Some (projectUnavailable projectKeys)
      \<and> getMetaDataErr (fetchIssueMetadata_then U P projectKeys fetched st)
        = Some (projectUnavailable projectKeys))
   \<and> (\<not> truthy_value (fetched_error fetched)
        \<and> (fetched_data fetched = None
            \<or> (\<exists>d'. fetched_data fetched = Some d' \<and> \<not> truthy_value (data_error d'))) \<longrightarrow>
      patch_getMetaDataErr (fetchIssueMetadata_state U P projectKeys fetched st) = None
      \<and> getMetaDataErr (fetchIssueMetadata_then U P projectKeys fetched st) = getMetaDataErr st)"
  by (auto simp: fetchIssueMetadata_then_def fetchIssueMetadata_state_def setState_def Let_def
        flagRemoved_getMetaDataErr split: option.splits)

text \<open>
  Four results for a fetch of project OPS: an error object at the top, an error message in
  the data, no error at all, and an empty string as the top-level error.
\<close>

theorem fetchIssueMetadata_error_message_witness:
  "getMetaDataErr (fetchIssueMetadata_then specUtils exampleProps [''OPS'']
       \<lparr>fetched_error = JsObject ''unreachable'', fetched_data = None\<rparr> (exampleState []))
     = Some ''The project OPS is unavailable. Please contact your system administrator.''
   \<and> getMetaDataErr (fetchIssueMetadata_then specUtils exampleProps [''OPS'']
       \<lparr>fetched_error = (JsUndefined :: string js_value),
        fetched_data = Some \<lparr>data_error = JsString ''not found''\<rparr>\<rparr> (exampleState []))
     = Some ''The project OPS is unavailable. Please contact your system administrator.''
   \<and> getMetaDataErr (fetchIssueMetadata_then specUtils exampleProps [''OPS'']
       \<lparr>fetched_error = (JsUndefined :: string js_value),
        fetched_data = Some \<lparr>data_error = JsUndefined\<rparr>\<rparr> (exampleState []))
     = None
   \<and> getMetaDataErr (fetchIssueMetadata_then specUtils exampleProps [''OPS'']
       \<lparr>fetched_error = (JsString [] :: string js_value), fetched_data = None\<rparr> (exampleState []))
     = None"
proof -
  let ?f1 = "\<lparr>fetched_error = JsObject ''unreachable'', fetched_data = None\<rparr>"
  let ?d2 = "\<lparr>data_error = (JsString ''not found'' :: string js_value)\<rparr>"
  let ?f2 = "\<lparr>fetched_error = (JsUndefined :: string js_value), fetched_data = Some ?d2\<rparr>"
  let ?d3 = "\<lparr>data_error = (JsUndefined :: string js_value)\<rparr>"
  let ?f3 = "\<lparr>fetched_error = (JsUndefined :: string js_value), fetched_data = Some ?d3\<rparr>"
  let ?f4 = "\<lparr>fetched_error = (JsString [] :: string js_value), fetched_data = None\<rparr>"
  have h1: "truthy_value (fetched_error ?f1)" by simp
  have h2: "fetched_data ?f2 = Some ?d2 \<and> truthy_value (data_error ?d2)" by simp
  have h3: "\<not> truthy_value (fetched_error ?f3)
        \<and> (fetched_data ?f3 = None
            \<or> (\<exists>d'. fetched_data ?f3 = Some d' \<and> \<not> truthy_value (data_error d')))"
    by simp
  have h4: "\<not> truthy_value (fetched_error ?f4)
        \<and> (fetched_data ?f4 = None
            \<or> (\<exists>d'. fetched_data ?f4 = Some d' \<and> \<not> truthy_value (data_error d')))"
    by simp
  have m: "projectUnavailable [''OPS'']
     = ''The project OPS is unavailable. Please contact your system administrator.''"
    by (simp add: projectUnavailable_def)
  have g: "getMetaDataErr (exampleState []) = None" by (simp add: exampleState_def)
  from fetchIssueMetadata_error_message [where fetched="?f1" and U=specUtils and P=exampleProps
      and projectKeys="[''OPS'']" and st="exampleState []"] h1
  have a: "getMetaDataErr (fetchIssueMetadata_then specUtils exampleProps [''OPS''] ?f1 (exampleState []))
     = Some (projectUnavailable [''OPS''])" by blast
  from fetchIssueMetadata_error_message [where fetched="?f2" and d="?d2" and U=specUtils and P=exampleProps
      and projectKeys="[''OPS'']" and st="exampleState []"] h2
  have b: "getMetaDataErr (fetchIssueMetadata_then specUtils exampleProps [''OPS''] ?f2 (exampleState []))
     = Some (projectUnavailable [''OPS''])" by blast
  from fetchIssueMetadata_error_message [where fetched="?f3" and U=specUtils and P=exampleProps
      and projectKeys="[''OPS'']" and st="exampleState []"] h3
  have c: "getMetaDataErr (fetchIssueMetadata_then specUtils exampleProps [''OPS''] ?f3 (exampleState []))
     = getMetaDataErr (exampleState [])" by blast
  from fetchIssueMetadata_error_message [where fetched="?f4" and U=specUtils and P=exampleProps
      and projectKeys="[''OPS'']" and st="exampleState []"] h4
  have d: "getMetaDataErr (fetchIssueMetadata_then specUtils exampleProps [''OPS''] ?f4 (exampleState []))
     = getMetaDataErr (exampleState [])" by blast
  from a b c d m g show ?thesis by simp
qed

text \<open>
  Claim C4, as the code has it. The callback of a fetch is applied whenever its response
  arrives, also when the project selection has changed since. It never changes the filters
  (projects, events, issue types, fields), the subscription name, the conflict message,
  \<open>submitting\<close> or \<open>showConfirmModal\<close>. It does set \<open>fetchingIssueMetadata\<close> to
  \<open>False\<close>; \<open>getMetaDataErr\<close> is kept or becomes the message that names the project the
  response is for; \<open>error\<close> is kept or becomes the removed-field message.
\<close>

theorem fetchIssueMetadata_then_keeps_selection:
  "filters (fetchIssueMetadata_then U P projectKeys fetched st) = filters st
   \<and> subscriptionName (fetchIssueMetadata_then U P projectKeys fetched st) = subscriptionName st
   \<and> conflictingError (fetchIssueMetadata_then U P projectKeys fetched st) = conflictingError st
   \<and> submitting (fetchIssueMetadata_then U P projectKeys fetched st) = submitting st
   \<and> showConfirmModal (fetchIssueMetadata_then U P projectKeys fetched st) = showConfirmModal st
   \<and> fetchingIssueMetadata (fetchIssueMetadata_then U P projectKeys fetched st) = False
   \<and> getMetaDataErr (fetchIssueMetadata_then U P projectKeys fetched st)
       \<in> {getMetaDataErr st, Some (projectUnavailable projectKeys)}
   \<and> error (fetchIssueMetadata_then U P projectKeys fetched st) \<in> {error st, Some fieldRemoved}"
proof -
  let ?p = "fetchIssueMetadata_state U P projectKeys fetched st"
  have a: "patch_fetchingIssueMetadata ?p = False"
    by (simp add: fetchIssueMetadata_state_def Let_def flagRemoved_fetching)
  have b: "patch_getMetaDataErr ?p = None \<or> patch_getMetaDataErr ?p = Some (projectUnavailable projectKeys)"
    by (simp add: fetchIssueMetadata_state_def Let_def flagRemoved_getMetaDataErr)
  have c: "patch_error ?p = None \<or> patch_error ?p = Some fieldRemoved"
    using flagRemoved_error [of "getCustomFieldFiltersForProjects U (jiraIssueMetadata P) (projects (filters st))"
        "fields' (filters st)"]
    by (simp add: fetchIssueMetadata_state_def Let_def) (metis StatePatch.select_convs(3) StatePatch.simps)
  from a b c show ?thesis
    by (auto simp: fetchIssueMetadata_then_def setState_def)
qed

text \<open>
  Claim C4 as stated says a late response for a superseded project leaves the state
  unchanged. Project A is selected, then project B; the state then shows B, a fetch in
  flight and no metadata error. The late response for A, an error, ends the fetching status
  although the fetch for B is still in flight, and sets the message that project A is
  unavailable.
\<close>

theorem stale_response_changes_fetch_status:
  "projects (filters (fst (handleProjectChange (fst (handleProjectChange (exampleState []) (Single ''A''))) (Single ''B'')))) = [''B'']
   \<and> fetchingIssueMetadata (fst (handleProjectChange (fst (handleProjectChange (exampleState []) (Single ''A''))) (Single ''B''))) = True
   \<and> getMetaDataErr (fst (handleProjectChange (fst (handleProjectChange (exampleState []) (Single ''A''))) (Single ''B''))) = None
   \<and> fetchingIssueMetadata (fetchIssueMetadata_then specUtils exampleProps [''A'']
        \<lparr>fetched_error = JsObject ''unreachable'', fetched_data = None\<rparr>
        (fst (handleProjectChange (fst (handleProjectChange (exampleState []) (Single ''A''))) (Single ''B'')))) = False
   \<and> getMetaDataErr (fetchIssueMetadata_then specUtils exampleProps [''A'']
        \<lparr>fetched_error = JsObject ''unreachable'', fetched_data = None\<rparr>
        (fst (handleProjectChange (fst (handleProjectChange (exampleState []) (Single ''A''))) (Single ''B''))))
      = Some ''The project A is unavailable. Please contact your system administrator.''
   \<and> fetchIssueMetadata_then specUtils exampleProps [''A'']
        \<lparr>fetched_error = JsObject ''unreachable'', fetched_data = None\<rparr>
        (fst (handleProjectChange (fst (handleProjectChange (exampleState []) (Single ''A''))) (Single ''B'')))
      \<noteq> fst (handleProjectChange (fst (handleProjectChange (exampleState []) (Single ''A''))) (Single ''B''))"
proof -
  let ?st2 = "fst (handleProjectChange (fst (handleProjectChange (exampleState []) (Single ''A''))) (Single ''B''))"
  let ?st3 = "fetchIssueMetadata_then specUtils exampleProps [''A'']
        \<lparr>fetched_error = JsObject ''unreachable'', fetched_data = None\<rparr> ?st2"
  have a: "projects (filters ?st2) = [''B''] \<and> fetchingIssueMetadata ?st2 = True
       \<and> getMetaDataErr ?st2 = None"
    by (simp add: handleProjectChange_def Let_def toArray_def clearConflictingErrorMessage_def)
  have f: "fields' (filters ?st2) = []"
    by (simp add: handleProjectChange_def Let_def)
  have b: "fetchingIssueMetadata ?st3 = False
       \<and> getMetaDataErr ?st3 = Some ''The project A is unavailable. Please contact your system administrator.''"
    by (simp add: fetchIssueMetadata_then_def fetchIssueMetadata_state_def setState_def Let_def f
          projectUnavailable_def)
  from a b have "fetchingIssueMetadata ?st3 \<noteq> fetchingIssueMetadata ?st2" by simp
  then have c: "?st3 \<noteq> ?st2" by auto
  from a b c show ?thesis by simp
qed

section \<open>The filters are arrays\<close>

text \<open>
  Claim C9, as the code has it. \<^verbatim>\<open>handleSettingChange\<close> and \<^verbatim>\<open>handleProjectChange\<close>
  store the empty list for a \<^verbatim>\<open>null\<close>, \<^verbatim>\<open>undefined\<close> or empty-string value, the
  one-element list for a non-empty string, and the array itself for an array;
  \<^verbatim>\<open>handleIssueChange\<close> stores the empty list for \<^verbatim>\<open>null\<close>; the constructor gives an
  empty fields list without a subscription and for a subscription whose fields are missing,
  and the stored fields otherwise; \<^verbatim>\<open>handleFilterFieldChange\<close> stores the list it is
  given.
\<close>

theorem filter_values_normalised:
  "getFilter i (filters (handleSettingChange st i Null)) = []
   \<and> getFilter i (filters (handleSettingChange st i Undefined)) = []
   \<and> getFilter i (filters (handleSettingChange st i (Single []))) = []
   \<and> (s \<noteq> [] \<longrightarrow> getFilter i (filters (handleSettingChange st i (Single s))) = [s])
   \<and> getFilter i (filters (handleSettingChange st i (Multi xs))) = xs
   \<and> projects (filters (fst (handleProjectChange st Null))) = []
   \<and> projects (filters (fst (handleProjectChange st Undefined))) = []
   \<and> projects (filters (fst (handleProjectChange st (Single [])))) = []
   \<and> (s \<noteq> [] \<longrightarrow> projects (filters (fst (handleProjectChange st (Single s)))) = [s])
   \<and> projects (filters (fst (handleProjectChange st (Multi xs)))) = xs
   \<and> handleIssueChange U P st None =
       Inr (st\<lparr>filters := (filters st)\<lparr>issue_types := []\<rparr>, conflictingError := None\<rparr>)
   \<and> (selectedSubscription P = None \<longrightarrow> fields' (filters (fst (constructor P))) = [])
   \<and> (selectedSubscription P = Some sel \<and> stored_fields (selected_filters sel) = None
        \<longrightarrow> fields' (filters (fst (constructor P))) = [])
   \<and> (selectedSubscription P = Some sel \<and> stored_fields (selected_filters sel) = Some fs
        \<longrightarrow> fields' (filters (fst (constructor P))) = fs)
   \<and> fields' (filters (handleFilterFieldChange st fs)) = fs"
proof -
  have set_get: "\<And>ys f. getFilter i (setFilter i ys f) = ys"
    by (cases i) simp_all
  have a: "\<And>v. getFilter i (filters (handleSettingChange st i v)) = toArray v"
    by (simp add: handleSettingChange_def Let_def clearConflictingErrorMessage_def set_get)
  have b: "\<And>v. projects (filters (fst (handleProjectChange st v))) = toArray v"
    by (simp add: handleProjectChange_def Let_def)
  have c: "handleIssueChange U P st None =
       Inr (st\<lparr>filters := (filters st)\<lparr>issue_types := []\<rparr>, conflictingError := None\<rparr>)"
    by (simp add: handleIssueChange_def orEmpty_def)
  have d: "selectedSubscription P = None \<longrightarrow> fields' (filters (fst (constructor P))) = []"
    by (simp add: constructor_def Let_def)
  have e: "selectedSubscription P = Some sel \<and> stored_fields (selected_filters sel) = None
        \<longrightarrow> fields' (filters (fst (constructor P))) = []"
    by (simp add: constructor_def Let_def)
  have f: "selectedSubscription P = Some sel \<and> stored_fields (selected_filters sel) = Some fs
        \<longrightarrow> fields' (filters (fst (constructor P))) = fs"
    by (simp add: constructor_def Let_def)
  have g: "fields' (filters (handleFilterFieldChange st fs)) = fs"
    by (simp add: handleFilterFieldChange_def clearConflictingErrorMessage_def)
  from c d e f g show ?thesis
    by (simp add: a b toArray_def)
qed

text \<open>
  A single event value, a single project key, and a stored subscription without fields.
\<close>

theorem filter_values_normalised_witness:
  "getFilter Events (filters (handleSettingChange (exampleState []) Events (Single ''event_created'')))
     = [''event_created'']
   \<and> projects (filters (fst (handleProjectChange (exampleState [exampleValue ''f1'']) (Single ''OPS''))))
     = [''OPS'']
   \<and> fields' (filters (fst (constructor
        (exampleProps\<lparr>selectedSubscription :=
           Some \<lparr>selected_id = ''s1'', selected_name = ''ops bugs'',
                 selected_filters = \<lparr>stored_events = [''event_created''], stored_projects = [''OPS''],
                    stored_issue_types = [''Bug''], stored_fields = None\<rparr>\<rparr>\<rparr>)))) = []"
proof -
  let ?sel = "\<lparr>selected_id = ''s1'', selected_name = ''ops bugs'',
                 selected_filters = \<lparr>stored_events = [''event_created''], stored_projects = [''OPS''],
                    stored_issue_types = [''Bug''], stored_fields = None\<rparr>\<rparr>"
  let ?P = "exampleProps\<lparr>selectedSubscription := Some ?sel\<rparr>"
  have h1: "''event_created'' \<noteq> []" by simp
  have h2: "''OPS'' \<noteq> []" by simp
  have h3: "selectedSubscription ?P = Some ?sel \<and> stored_fields (selected_filters ?sel) = None"
    by simp
  from filter_values_normalised [where i=Events and st="exampleState []" and s="''event_created''"
      and U=specUtils and P="?P" and sel="?sel"] h1 h3
  have a: "getFilter Events (filters (handleSettingChange (exampleState []) Events (Single ''event_created'')))
     = [''event_created'']"
    and c: "fields' (filters (fst (constructor ?P))) = []"
    by blast+
  from filter_values_normalised [where i=Events and st="exampleState [exampleValue ''f1'']" and s="''OPS''"
      and U=specUtils and P="?P" and sel="?sel"] h2
  have b: "projects (filters (fst (handleProjectChange (exampleState [exampleValue ''f1'']) (Single ''OPS''))))
     = [''OPS'']"
    by blast
  from a b c show ?thesis by simp
qed

text \<open>
  Claim C9 as stated says a non-array value is wrapped into a one-element list. The empty
  string is not an array, and \<^verbatim>\<open>!value\<close> holds of it: both handlers store the empty
  list, not the list of the empty string.
\<close>

theorem empty_string_not_wrapped:
  "getFilter Events (filters (handleSettingChange (exampleState []) Events (Single []))) = []
   \<and> getFilter Events (filters (handleSettingChange (exampleState []) Events (Single []))) \<noteq> [[]]
   \<and> projects (filters (fst (handleProjectChange (exampleState []) (Single [])))) = []
   \<and> projects (filters (fst (handleProjectChange (exampleState []) (Single [])))) \<noteq> [[]]"
  by (simp add: handleSettingChange_def handleProjectChange_def Let_def toArray_def
        clearConflictingErrorMessage_def)

section \<open>The slash-command hook\<close>

text \<open>
  Claim C10, as the code has it. The hook resolves to the empty object exactly when the
  message is \<^verbatim>\<open>/jira create\<close> or starts with \<^verbatim>\<open>/jira create\<close> and a space, starts with
  \<^verbatim>\<open>/jira connect\<close>, or is \<^verbatim>\<open>/jira subscribe\<close> or starts with \<^verbatim>\<open>/jira subscribe\<close> and
  a space. For every other message, a missing one included, it has no effect and resolves
  to the message and the context it was given, both unchanged.
\<close>

theorem slashCommandWillBePostedHook_empty_or_forward:
  "(if (case message' of
          None \<Rightarrow> False
        | Some m \<Rightarrow> startsWith m ''/jira create '' \<or> m = ''/jira create''
                    \<or> startsWith m ''/jira connect''
                    \<or> startsWith m ''/jira subscribe '' \<or> m = ''/jira subscribe'')
    then snd (slashCommandWillBePostedHook env message' contextArgs) = EmptyObject
    else slashCommandWillBePostedHook env message' contextArgs = ([], Forward message' contextArgs))"
  by (cases message') (simp_all add: slashCommandWillBePostedHook_def startsWith_self)

text \<open>
  Claim C10 as stated has every message that starts with \<^verbatim>\<open>/jira create\<close> suppressed.
  The message \<^verbatim>\<open>/jira created\<close> starts with that prefix and is forwarded.
\<close>

theorem slashCommandWillBePostedHook_forwards_created:
  "startsWith ''/jira created'' ''/jira create''
   \<and> slashCommandWillBePostedHook exampleEnv (Some ''/jira created'') exampleArgs
       = ([], Forward (Some ''/jira created'') exampleArgs)"
  by (simp add: slashCommandWillBePostedHook_def startsWith_def)

end
